theory Spec2Isabelle
  imports Main "HOL-Library.Word"
begin

section \<open>Telepush: a shallow embedding of \<^verbatim>\<open>src/index.ts\<close>\<close>

subsection \<open>JavaScript strings and values\<close>

text \<open>
  A JavaScript string is a sequence of UTF-16 code units. String literals of the source
  are ASCII and are written with \<open>lit\<close>. Numbers of the source (ids, dates, HTTP status,
  milliseconds) are integers in every place this development looks at and are modelled
  as \<open>int\<close>.
\<close>

type_synonym code_unit = "16 word"
type_synonym js_string = "code_unit list"

definition lit :: "string \<Rightarrow> js_string" where
  "lit s = map (\<lambda>c. of_nat (of_char c)) s"

text \<open>\<^verbatim>\<open>!s\<close> on a string: only the empty string is falsy.\<close>

definition truthy_string :: "js_string \<Rightarrow> bool" where
  "truthy_string s = (s \<noteq> [])"

text \<open>\<^verbatim>\<open>!n\<close> on a number: 0 is falsy (NaN has no counterpart in \<open>int\<close>).\<close>

definition truthy_number :: "int \<Rightarrow> bool" where
  "truthy_number n = (n \<noteq> 0)"

text \<open>
  \<^verbatim>\<open>String.prototype.trim\<close> removes ECMAScript WhiteSpace and LineTerminator code points
  from both ends: TAB, LF, VT, FF, CR, SPACE, NBSP, U+1680, U+2000..U+200A, U+2028, U+2029,
  U+202F, U+205F, U+3000 and U+FEFF. All of them are single code units.
\<close>

definition is_js_whitespace :: "code_unit \<Rightarrow> bool" where
  "is_js_whitespace c =
     (c \<in> set [9, 10, 11, 12, 13, 32, 160, 5760, 8232, 8233, 8239, 8287, 12288, 65279]
      \<or> (8192 \<le> c \<and> c \<le> 8202))"

definition trim :: "js_string \<Rightarrow> js_string" where
  "trim s = rev (dropWhile is_js_whitespace (rev (dropWhile is_js_whitespace s)))"

text \<open>
  \<^verbatim>\<open>s.replace(/\/$/, "")\<close>: the first match of a slash standing at the end of the input,
  found scanning from the left, is replaced by the empty string. Without the \<^verbatim>\<open>m\<close> flag
  \<^verbatim>\<open>$\<close> matches at the end of the input only.
\<close>

definition slash :: code_unit where
  "slash = 47"

fun replace_trailing_slash :: "js_string \<Rightarrow> js_string" where
  "replace_trailing_slash [] = []"
| "replace_trailing_slash [c] = (if c = slash then [] else [c])"
| "replace_trailing_slash (c # d # cs) = c # replace_trailing_slash (d # cs)"

text \<open>Number to string, as a template literal renders an integer: decimal digits.\<close>

definition digit_unit :: "nat \<Rightarrow> code_unit" where
  "digit_unit d = of_nat (48 + d)"

function decimal_digits :: "nat \<Rightarrow> js_string" where
  "decimal_digits n =
     (if n < 10 then [digit_unit n] else decimal_digits (n div 10) @ [digit_unit (n mod 10)])"
  by pat_completeness auto
termination
  by (relation "measure (\<lambda>n. n)") auto

definition number_to_string :: "int \<Rightarrow> js_string" where
  "number_to_string i =
     (if i < 0 then lit ''-'' @ decimal_digits (nat (- i)) else decimal_digits (nat i))"

text \<open>Values that end up in the JSON request body.\<close>

datatype json_value = JString js_string | JNumber int | JBool bool

text \<open>
  A plain object with string keys, in insertion order. Assigning a property replaces the
  value of an existing key in place and appends a new key at the end.
\<close>

type_synonym js_object = "(string \<times> json_value) list"

fun set_prop :: "js_object \<Rightarrow> string \<Rightarrow> json_value \<Rightarrow> js_object" where
  "set_prop [] k v = [(k, v)]"
| "set_prop ((k', v') # ps) k v =
     (if k' = k then (k, v) # ps else (k', v') # set_prop ps k v)"

subsection \<open>Types of the library\<close>

text \<open>
  \<^verbatim>\<open>TelepushConfig\<close>. The constructor tests \<^verbatim>\<open>chatId\<close> against \<^verbatim>\<open>undefined\<close>, \<^verbatim>\<open>null\<close> and
  \<^verbatim>\<open>""\<close> one by one, so the field keeps all of these apart. For the other optional
  fields the code does not tell \<^verbatim>\<open>undefined\<close> from \<^verbatim>\<open>null\<close> (\<^verbatim>\<open>!x\<close>, \<^verbatim>\<open>??\<close>): \<open>None\<close> is
  an absent value.
\<close>

datatype chat_id_field =
  ChatUndefined | ChatNull | ChatString js_string | ChatNumber int

record telepush_config =
  cfg_botToken :: "js_string option"
  cfg_chatId :: chat_id_field
  cfg_apiBaseUrl :: "js_string option"
  cfg_defaultTimeoutMs :: "int option"

text \<open>\<^verbatim>\<open>PushOptions\<close>; \<open>None\<close> is \<^verbatim>\<open>undefined\<close>.\<close>

datatype parse_mode = Markdown | MarkdownV2 | HTML

fun parse_mode_string :: "parse_mode \<Rightarrow> js_string" where
  "parse_mode_string Markdown = lit ''Markdown''"
| "parse_mode_string MarkdownV2 = lit ''MarkdownV2''"
| "parse_mode_string HTML = lit ''HTML''"

record push_options =
  parseMode :: "parse_mode option"
  disableNotification :: "bool option"
  protectContent :: "bool option"
  replyToMessageId :: "int option"
  messageThreadId :: "int option"
  disableWebPagePreview :: "bool option"
  timeoutMs :: "int option"

text \<open>The default value \<^verbatim>\<open>{}\<close> of the parameter \<^verbatim>\<open>options\<close>.\<close>

definition empty_options :: push_options where
  "empty_options =
     \<lparr>parseMode = None, disableNotification = None, protectContent = None,
      replyToMessageId = None, messageThreadId = None, disableWebPagePreview = None,
      timeoutMs = None\<rparr>"

definition options_or_default :: "push_options option \<Rightarrow> push_options" where
  "options_or_default options_arg =
     (case options_arg of None \<Rightarrow> empty_options | Some opts \<Rightarrow> opts)"

text \<open>
  \<^verbatim>\<open>SendMessageResult\<close> (its field \<^verbatim>\<open>text\<close> is \<open>message_text\<close> here) and
  \<^verbatim>\<open>TelegramResponse<SendMessageResult>\<close>.
\<close>

record send_message_result =
  message_id :: int
  date :: int
  message_text :: "js_string option"

record telegram_response =
  tg_ok :: bool
  tg_result :: "send_message_result option"
  tg_description :: "js_string option"
  tg_error_code :: "int option"

text \<open>\<^verbatim>\<open>TelepushError(message, status?, code?)\<close>.\<close>

datatype telepush_error =
  TelepushError (message: js_string) (status: "int option") (code: "int option")

text \<open>The private fields of a \<^verbatim>\<open>Telepush\<close> instance.\<close>

datatype chat_id = ChatIdString js_string | ChatIdNumber int

record telepush =
  botToken :: js_string
  chatId :: chat_id
  apiBaseUrl :: js_string
  defaultTimeoutMs :: "int option"

subsection \<open>The environment: timers and the transport\<close>

text \<open>
  A thrown value is a \<^verbatim>\<open>TelepushError\<close>, another \<^verbatim>\<open>Error\<close> instance with its \<^verbatim>\<open>name\<close> and
  \<^verbatim>\<open>message\<close>, or something that is no \<^verbatim>\<open>Error\<close> at all.
\<close>

datatype thrown =
  ThrownTelepushError telepush_error
| ThrownError (error_name: js_string) (error_message: js_string)
| ThrownNonError

text \<open>
  \<^verbatim>\<open>await response.json()\<close> yields the decoded body or rejects; \<^verbatim>\<open>await fetch(...)\<close> yields
  a response (\<^verbatim>\<open>ok\<close>, \<^verbatim>\<open>status\<close>, \<^verbatim>\<open>json()\<close>) or rejects.
\<close>

datatype json_outcome = JsonResolves telegram_response | JsonRejects thrown

record response =
  resp_ok :: bool
  resp_status :: int
  resp_json :: json_outcome

datatype fetch_outcome = FetchResolves response | FetchRejects thrown

record request =
  req_url :: js_string
  req_method :: js_string
  req_headers :: "(string \<times> js_string) list"
  req_body :: js_object

text \<open>A \<^verbatim>\<open>NodeJS.Timeout\<close> is an object, hence always truthy.\<close>

datatype timer_handle = Timeout nat

definition truthy_handle :: "timer_handle \<Rightarrow> bool" where
  "truthy_handle h = True"

record environment =
  env_fetch :: "request \<Rightarrow> fetch_outcome"
  env_setTimeout :: "int \<Rightarrow> timer_handle"

text \<open>What a call does to the outside world, in program order.\<close>

datatype event =
  SetTimeout timer_handle int
| Fetch request
| ClearTimeout timer_handle

subsection \<open>The constructor\<close>

text \<open>
  \<^verbatim>\<open>new Telepush(config)\<close>. The argument is read through \<^verbatim>\<open>config?.\<close>, so a missing config
  (\<open>None\<close>) reads as a missing field. The result comes with the events of the call.
\<close>

definition config_botToken :: "telepush_config option \<Rightarrow> js_string option" where
  "config_botToken config = (case config of None \<Rightarrow> None | Some cfg \<Rightarrow> cfg_botToken cfg)"

definition config_chatId :: "telepush_config option \<Rightarrow> chat_id_field" where
  "config_chatId config = (case config of None \<Rightarrow> ChatUndefined | Some cfg \<Rightarrow> cfg_chatId cfg)"

definition default_api_base_url :: js_string where
  "default_api_base_url = lit ''https://api.telegram.org''"

definition new_Telepush ::
  "telepush_config option \<Rightarrow> event list \<times> (telepush_error + telepush)" where
  "new_Telepush config =
     (case config_botToken config of
        None \<Rightarrow> ([], Inl (TelepushError (lit ''botToken is required'') None None))
      | Some tok \<Rightarrow>
          if \<not> truthy_string tok
          then ([], Inl (TelepushError (lit ''botToken is required'') None None))
          else
            (case config_chatId config of
               ChatUndefined \<Rightarrow> ([], Inl (TelepushError (lit ''chatId is required'') None None))
             | ChatNull \<Rightarrow> ([], Inl (TelepushError (lit ''chatId is required'') None None))
             | ChatString s \<Rightarrow>
                 if s = lit ''''
                 then ([], Inl (TelepushError (lit ''chatId is required'') None None))
                 else ([], Inr \<lparr>botToken = tok, chatId = ChatIdString s,
                        apiBaseUrl = replace_trailing_slash
                          (case Option.bind config cfg_apiBaseUrl of
                             None \<Rightarrow> default_api_base_url | Some u \<Rightarrow> u),
                        defaultTimeoutMs = Option.bind config cfg_defaultTimeoutMs\<rparr>)
             | ChatNumber n \<Rightarrow>
                 ([], Inr \<lparr>botToken = tok, chatId = ChatIdNumber n,
                        apiBaseUrl = replace_trailing_slash
                          (case Option.bind config cfg_apiBaseUrl of
                             None \<Rightarrow> default_api_base_url | Some u \<Rightarrow> u),
                        defaultTimeoutMs = Option.bind config cfg_defaultTimeoutMs\<rparr>)))"

subsection \<open>\<^verbatim>\<open>push\<close>\<close>

text \<open>Lines 142 to 158: the object handed to \<^verbatim>\<open>JSON.stringify\<close>.\<close>

fun chat_id_json :: "chat_id \<Rightarrow> json_value" where
  "chat_id_json (ChatIdString s) = JString s"
| "chat_id_json (ChatIdNumber n) = JNumber n"

definition build_payload :: "telepush \<Rightarrow> js_string \<Rightarrow> push_options \<Rightarrow> js_object" where
  "build_payload this txt options =
     (let payload = [(''chat_id'', chat_id_json (chatId this)), (''text'', JString txt)];
          payload = (case parseMode options of
                       None \<Rightarrow> payload
                     | Some m \<Rightarrow>
                         if truthy_string (parse_mode_string m)
                         then set_prop payload ''parse_mode'' (JString (parse_mode_string m))
                         else payload);
          payload = (case disableNotification options of
                       None \<Rightarrow> payload
                     | Some b \<Rightarrow> set_prop payload ''disable_notification'' (JBool b));
          payload = (case protectContent options of
                       None \<Rightarrow> payload
                     | Some b \<Rightarrow> set_prop payload ''protect_content'' (JBool b));
          payload = (case replyToMessageId options of
                       None \<Rightarrow> payload
                     | Some n \<Rightarrow> set_prop payload ''reply_to_message_id'' (JNumber n));
          payload = (case messageThreadId options of
                       None \<Rightarrow> payload
                     | Some n \<Rightarrow> set_prop payload ''message_thread_id'' (JNumber n));
          payload = (case disableWebPagePreview options of
                       None \<Rightarrow> payload
                     | Some b \<Rightarrow> set_prop payload ''disable_web_page_preview'' (JBool b))
      in payload)"

text \<open>Lines 161 to 166: \<^verbatim>\<open>options.timeoutMs ?? this.defaultTimeoutMs\<close> and the timer.\<close>

definition effective_timeout :: "telepush \<Rightarrow> push_options \<Rightarrow> int option" where
  "effective_timeout this options =
     (case timeoutMs options of None \<Rightarrow> defaultTimeoutMs this | Some t \<Rightarrow> Some t)"

definition arm_timeout :: "environment \<Rightarrow> int option \<Rightarrow> event list \<times> timer_handle option" where
  "arm_timeout env timeout_ms =
     (case timeout_ms of
        None \<Rightarrow> ([], None)
      | Some t \<Rightarrow>
          if truthy_number t \<and> t > 0
          then ([SetTimeout (env_setTimeout env t) t], Some (env_setTimeout env t))
          else ([], None))"

text \<open>Line 168 and lines 171 to 178: the request given to \<^verbatim>\<open>fetch\<close>.\<close>

definition build_request :: "telepush \<Rightarrow> js_object \<Rightarrow> request" where
  "build_request this payload =
     \<lparr>req_url = apiBaseUrl this @ lit ''/bot'' @ botToken this @ lit ''/sendMessage'',
      req_method = lit ''POST'',
      req_headers = [(''content-type'', lit ''application/json'')],
      req_body = payload\<rparr>"

text \<open>Lines 180 to 207: the body of the \<^verbatim>\<open>try\<close> block once \<^verbatim>\<open>fetch\<close> has settled.\<close>

definition interpret_response :: "response \<Rightarrow> thrown + send_message_result" where
  "interpret_response response =
     (case resp_json response of
        JsonRejects err \<Rightarrow> Inl err
      | JsonResolves data \<Rightarrow>
          if \<not> resp_ok response
          then Inl (ThrownTelepushError (TelepushError
                 (case tg_description data of
                    None \<Rightarrow> lit ''HTTP '' @ number_to_string (resp_status response)
                  | Some d \<Rightarrow> d)
                 (Some (resp_status response)) (tg_error_code data)))
          else if \<not> tg_ok data
          then Inl (ThrownTelepushError (TelepushError
                 (case tg_description data of
                    None \<Rightarrow> lit ''Telegram API error''
                  | Some d \<Rightarrow> d)
                 (Some (resp_status response)) (tg_error_code data)))
          else
            (case tg_result data of
               None \<Rightarrow> Inl (ThrownTelepushError (TelepushError
                         (lit ''Telegram API returned no result'')
                         (Some (resp_status response)) (tg_error_code data)))
             | Some r \<Rightarrow> Inr r))"

definition try_block :: "fetch_outcome \<Rightarrow> thrown + send_message_result" where
  "try_block outcome =
     (case outcome of
        FetchRejects err \<Rightarrow> Inl err
      | FetchResolves response \<Rightarrow> interpret_response response)"

text \<open>Lines 208 to 215: the \<^verbatim>\<open>catch\<close> block, which always throws.\<close>

fun catch_block :: "thrown \<Rightarrow> telepush_error" where
  "catch_block (ThrownTelepushError err) = err"
| "catch_block (ThrownError name msg) =
     (if name = lit ''AbortError''
      then TelepushError (lit ''Request timed out'') None None
      else TelepushError msg None None)"
| "catch_block ThrownNonError = TelepushError (lit ''Unknown error'') None None"

text \<open>Lines 216 to 218: the \<^verbatim>\<open>finally\<close> block.\<close>

definition finally_block :: "timer_handle option \<Rightarrow> event list" where
  "finally_block timeout =
     (case timeout of
        None \<Rightarrow> []
      | Some h \<Rightarrow> if truthy_handle h then [ClearTimeout h] else [])"

text \<open>
  \<^verbatim>\<open>push(text, options = {})\<close>: the events of the call in program order, and the value the
  promise settles with (\<open>Inl\<close> a rejection, \<open>Inr\<close> the result).
\<close>

definition push ::
  "telepush \<Rightarrow> environment \<Rightarrow> js_string \<Rightarrow> push_options option
     \<Rightarrow> event list \<times> (telepush_error + send_message_result)" where
  "push this env txt options_arg =
     (let options = options_or_default options_arg
      in if \<not> truthy_string txt \<or> length (trim txt) = 0
         then ([], Inl (TelepushError (lit ''text must be a non-empty string'') None None))
         else
           (let payload = build_payload this txt options;
                (armed, timeout) = arm_timeout env (effective_timeout this options);
                request = build_request this payload;
                settled = try_block (env_fetch env request);
                thrown_or_result =
                  (case settled of
                     Inl err \<Rightarrow> Inl (catch_block err)
                   | Inr r \<Rightarrow> Inr r)
            in (armed @ [Fetch request] @ finally_block timeout, thrown_or_result)))"

subsection \<open>The fixtures of \<^verbatim>\<open>test/telepush.test.mjs\<close>\<close>

definition baseConfig :: telepush_config where
  "baseConfig =
     \<lparr>cfg_botToken = Some (lit ''token''), cfg_chatId = ChatString (lit ''123''),
      cfg_apiBaseUrl = None, cfg_defaultTimeoutMs = None\<rparr>"

definition okResponse :: "telegram_response \<Rightarrow> int \<Rightarrow> response" where
  "okResponse data st = \<lparr>resp_ok = True, resp_status = st, resp_json = JsonResolves data\<rparr>"

definition errorResponse :: "telegram_response \<Rightarrow> int \<Rightarrow> response" where
  "errorResponse data st = \<lparr>resp_ok = False, resp_status = st, resp_json = JsonResolves data\<rparr>"

text \<open>
  \<^verbatim>\<open>withFetch(impl, fn)\<close> with an \<^verbatim>\<open>impl\<close> that settles the same way for every request;
  \<^verbatim>\<open>setTimeout\<close> hands out the timer 1.
\<close>

definition withFetch :: "fetch_outcome \<Rightarrow> environment" where
  "withFetch outcome = \<lparr>env_fetch = (\<lambda>request. outcome), env_setTimeout = (\<lambda>ms. Timeout 1)\<rparr>"

text \<open>The client \<^verbatim>\<open>new Telepush(baseConfig)\<close> of the tests.\<close>

definition baseClient :: telepush where
  "baseClient =
     \<lparr>botToken = lit ''token'', chatId = ChatIdString (lit ''123''),
      apiBaseUrl = lit ''https://api.telegram.org'', defaultTimeoutMs = None\<rparr>"

text \<open>The body \<^verbatim>\<open>{ok: true, result: {message_id: 1, date: 1700000000, text: "hello"}}\<close>.\<close>

definition hello_data :: telegram_response where
  "hello_data =
     \<lparr>tg_ok = True,
      tg_result = Some \<lparr>message_id = 1, date = 1700000000,
                        message_text = Some (lit ''hello'')\<rparr>,
      tg_description = None, tg_error_code = None\<rparr>"

text \<open>The bodies \<^verbatim>\<open>{ok: false}\<close>, \<^verbatim>\<open>{ok: false, description: "bad request", error_code: 400}\<close>
  and \<^verbatim>\<open>{ok: true}\<close>.\<close>

definition not_ok_data :: telegram_response where
  "not_ok_data = \<lparr>tg_ok = False, tg_result = None, tg_description = None, tg_error_code = None\<rparr>"

definition bad_request_data :: telegram_response where
  "bad_request_data =
     \<lparr>tg_ok = False, tg_result = None, tg_description = Some (lit ''bad request''),
      tg_error_code = Some 400\<rparr>"

definition no_result_data :: telegram_response where
  "no_result_data = \<lparr>tg_ok = True, tg_result = None, tg_description = None, tg_error_code = None\<rparr>"

text \<open>Options that set only \<^verbatim>\<open>timeoutMs\<close>, and \<^verbatim>\<open>{disableNotification: false}\<close>.\<close>

definition timeout_options :: "int \<Rightarrow> push_options" where
  "timeout_options ms = empty_options\<lparr>timeoutMs := Some ms\<rparr>"

definition silent_options :: push_options where
  "silent_options = empty_options\<lparr>disableNotification := Some False\<rparr>"

text \<open>
  What \<^verbatim>\<open>fetch\<close> rejects with when its signal is aborted (an \<^verbatim>\<open>Error\<close> named \<^verbatim>\<open>AbortError\<close>),
  and when the network fails.
\<close>

definition abort_error :: thrown where
  "abort_error = ThrownError (lit ''AbortError'') (lit ''This operation was aborted'')"

definition fetch_failed :: thrown where
  "fetch_failed = ThrownError (lit ''TypeError'') (lit ''fetch failed'')"

text \<open>Variants of the test client and of \<^verbatim>\<open>baseConfig\<close>.\<close>

definition client_with_default :: "int \<Rightarrow> telepush" where
  "client_with_default ms = baseClient\<lparr>defaultTimeoutMs := Some ms\<rparr>"

definition config_with_url :: "js_string \<Rightarrow> telepush_config" where
  "config_with_url u = baseConfig\<lparr>cfg_apiBaseUrl := Some u\<rparr>"

definition config_with_chat :: "chat_id_field \<Rightarrow> telepush_config" where
  "config_with_chat c = baseConfig\<lparr>cfg_chatId := c\<rparr>"

subsection \<open>The specification's wording of the base URL rule\<close>

text \<open>Strip exactly one trailing slash if present.\<close>

definition strip_one_trailing_slash :: "js_string \<Rightarrow> js_string" where
  "strip_one_trailing_slash u = (if u \<noteq> [] \<and> last u = slash then butlast u else u)"

section \<open>Properties\<close>

subsection \<open>Auxiliary facts\<close>

lemma trim_Nil_iff: "(trim s = []) = (\<forall>c\<in>set s. is_js_whitespace c)"
proof
  assume "trim s = []"
  then have all: "\<forall>c\<in>set (dropWhile is_js_whitespace s). is_js_whitespace c"
    by (simp add: trim_def)
  have "dropWhile is_js_whitespace s = []"
  proof (rule ccontr)
    assume ne: "dropWhile is_js_whitespace s \<noteq> []"
    then have "\<not> is_js_whitespace (hd (dropWhile is_js_whitespace s))"
      by (rule hd_dropWhile)
    moreover have "hd (dropWhile is_js_whitespace s) \<in> set (dropWhile is_js_whitespace s)"
      using ne by simp
    ultimately show False using all by blast
  qed
  then show "\<forall>c\<in>set s. is_js_whitespace c"
    by simp
next
  assume "\<forall>c\<in>set s. is_js_whitespace c"
  then show "trim s = []"
    by (auto simp: trim_def dest: set_dropWhileD)
qed

lemma text_check_iff:
  "(\<not> truthy_string txt \<or> length (trim txt) = 0) = (trim txt = [])"
proof (cases "txt = []")
  case True
  then show ?thesis by (simp add: truthy_string_def trim_def)
next
  case False
  then show ?thesis by (simp add: truthy_string_def)
qed

lemma push_blank:
  "trim txt = [] \<Longrightarrow>
     push this env txt oa =
       ([], Inl (TelepushError (lit ''text must be a non-empty string'') None None))"
  using text_check_iff [of "txt"]
  by (simp add: push_def)

lemma push_nonblank:
  "trim txt \<noteq> [] \<Longrightarrow>
     push this env txt oa =
       (fst (arm_timeout env (effective_timeout this (options_or_default oa)))
          @ [Fetch (build_request this (build_payload this txt (options_or_default oa)))]
          @ finally_block (snd (arm_timeout env (effective_timeout this (options_or_default oa)))),
        case try_block (env_fetch env
               (build_request this (build_payload this txt (options_or_default oa)))) of
          Inl err \<Rightarrow> Inl (catch_block err)
        | Inr r \<Rightarrow> Inr r)"
  using text_check_iff [of "txt"]
  by (simp add: push_def Let_def split_beta)

lemma arm_timeout_events:
  "Fetch request \<notin> set (fst (arm_timeout env t))"
  by (simp add: arm_timeout_def split: option.split)

lemma finally_block_events:
  "Fetch request \<notin> set (finally_block h)"
  by (simp add: finally_block_def split: option.split)

lemma fetch_event_iff:
  "(Fetch request \<in> set (fst (push this env txt oa))) =
     (trim txt \<noteq> [] \<and>
      request = build_request this (build_payload this txt (options_or_default oa)))"
proof (cases "trim txt = []")
  case True
  then show ?thesis by (simp add: push_blank)
next
  case False
  then show ?thesis
    by (auto simp: push_nonblank arm_timeout_events finally_block_events)
qed

lemma map_of_set_prop: "map_of (set_prop ps k v) = (map_of ps)(k \<mapsto> v)"
  by (induction ps k v rule: set_prop.induct) auto

lemma truthy_parse_mode: "truthy_string (parse_mode_string m)"
  by (cases m) (simp_all add: truthy_string_def lit_def)

lemma new_Telepush_baseConfig: "new_Telepush (Some baseConfig) = ([], Inr baseClient)"
  by (simp add: new_Telepush_def baseConfig_def baseClient_def config_botToken_def
      config_chatId_def truthy_string_def lit_def default_api_base_url_def slash_def)

lemma trim_hello: "trim (lit ''hello'') \<noteq> []"
  by (simp add: trim_def lit_def is_js_whitespace_def)

lemma push_sends:
  "trim txt \<noteq> [] \<Longrightarrow>
     Fetch (build_request this (build_payload this txt (options_or_default oa)))
       \<in> set (fst (push this env txt oa))"
  by (simp add: fetch_event_iff)

lemma push_settles:
  assumes "Fetch request \<in> set (fst (push this env txt oa))"
  shows "snd (push this env txt oa) =
     (case try_block (env_fetch env request) of
        Inl err \<Rightarrow> Inl (catch_block err)
      | Inr r \<Rightarrow> Inr r)"
  using assms by (simp add: fetch_event_iff push_nonblank)

lemma push_events_cases:
  "fst (push this env txt oa) = []
   \<or> (\<exists>request. fst (push this env txt oa) = [Fetch request])
   \<or> (\<exists>h t request. fst (push this env txt oa) = [SetTimeout h t, Fetch request, ClearTimeout h])"
proof (cases "trim txt = []")
  case True
  then show ?thesis by (simp add: push_blank)
next
  case False
  then show ?thesis
    by (simp add: push_nonblank arm_timeout_def finally_block_def truthy_handle_def
        split: option.split)
qed

lemma armed_iff:
  assumes "trim txt \<noteq> []"
  shows "(SetTimeout h ms \<in> set (fst (push this env txt oa))) =
     (effective_timeout this (options_or_default oa) = Some ms \<and> 0 < ms
      \<and> h = env_setTimeout env ms)"
  using assms
  by (auto simp: push_nonblank arm_timeout_def finally_block_def truthy_handle_def
      truthy_number_def split: option.splits if_splits)

lemma map_of_assign:
  "map_of (case v of None \<Rightarrow> ps | Some x \<Rightarrow> set_prop ps k (f x)) k' =
     (if k' = k then (case v of None \<Rightarrow> map_of ps k | Some x \<Rightarrow> Some (f x))
      else map_of ps k')"
  by (cases v) (simp_all add: map_of_set_prop)

lemma build_payload_lookup:
  "map_of (build_payload this txt options) =
     (\<lambda>k. if k = ''disable_web_page_preview''
            then map_option JBool (disableWebPagePreview options)
          else if k = ''message_thread_id'' then map_option JNumber (messageThreadId options)
          else if k = ''reply_to_message_id'' then map_option JNumber (replyToMessageId options)
          else if k = ''protect_content'' then map_option JBool (protectContent options)
          else if k = ''disable_notification''
            then map_option JBool (disableNotification options)
          else if k = ''parse_mode''
            then map_option (\<lambda>m. JString (parse_mode_string m)) (parseMode options)
          else if k = ''text'' then Some (JString txt)
          else if k = ''chat_id'' then Some (chat_id_json (chatId this))
          else None)"
proof -
  define p0 where "p0 = [(''chat_id'', chat_id_json (chatId this)), (''text'', JString txt)]"
  define p1 where "p1 = (case parseMode options of
                       None \<Rightarrow> p0
                     | Some m \<Rightarrow>
                         if truthy_string (parse_mode_string m)
                         then set_prop p0 ''parse_mode'' (JString (parse_mode_string m))
                         else p0)"
  define p2 where "p2 = (case disableNotification options of
                       None \<Rightarrow> p1
                     | Some b \<Rightarrow> set_prop p1 ''disable_notification'' (JBool b))"
  define p3 where "p3 = (case protectContent options of
                       None \<Rightarrow> p2
                     | Some b \<Rightarrow> set_prop p2 ''protect_content'' (JBool b))"
  define p4 where "p4 = (case replyToMessageId options of
                       None \<Rightarrow> p3
                     | Some n \<Rightarrow> set_prop p3 ''reply_to_message_id'' (JNumber n))"
  define p5 where "p5 = (case messageThreadId options of
                       None \<Rightarrow> p4
                     | Some n \<Rightarrow> set_prop p4 ''message_thread_id'' (JNumber n))"
  define p6 where "p6 = (case disableWebPagePreview options of
                       None \<Rightarrow> p5
                     | Some b \<Rightarrow> set_prop p5 ''disable_web_page_preview'' (JBool b))"
  have built: "build_payload this txt options = p6"
    unfolding build_payload_def Let_def p6_def p5_def p4_def p3_def p2_def p1_def p0_def
    by (rule refl)
  have m0: "map_of p0 k =
      (if k = ''text'' then Some (JString txt)
       else if k = ''chat_id'' then Some (chat_id_json (chatId this)) else None)" for k
    by (simp add: p0_def)
  have p1': "p1 = (case parseMode options of
                       None \<Rightarrow> p0
                     | Some m \<Rightarrow> set_prop p0 ''parse_mode'' (JString (parse_mode_string m)))"
    by (cases "parseMode options") (simp_all add: p1_def truthy_parse_mode)
  have m1: "map_of p1 k =
      (if k = ''parse_mode''
       then map_option (\<lambda>m. JString (parse_mode_string m)) (parseMode options)
       else map_of p0 k)" for k
    unfolding p1' map_of_assign by (simp add: m0 split: option.split)
  have m2: "map_of p2 k =
      (if k = ''disable_notification'' then map_option JBool (disableNotification options)
       else map_of p1 k)" for k
    unfolding p2_def map_of_assign by (simp add: m0 m1 split: option.split)
  have m3: "map_of p3 k =
      (if k = ''protect_content'' then map_option JBool (protectContent options)
       else map_of p2 k)" for k
    unfolding p3_def map_of_assign by (simp add: m0 m1 m2 split: option.split)
  have m4: "map_of p4 k =
      (if k = ''reply_to_message_id'' then map_option JNumber (replyToMessageId options)
       else map_of p3 k)" for k
    unfolding p4_def map_of_assign by (simp add: m0 m1 m2 m3 split: option.split)
  have m5: "map_of p5 k =
      (if k = ''message_thread_id'' then map_option JNumber (messageThreadId options)
       else map_of p4 k)" for k
    unfolding p5_def map_of_assign by (simp add: m0 m1 m2 m3 m4 split: option.split)
  have m6: "map_of p6 k =
      (if k = ''disable_web_page_preview''
       then map_option JBool (disableWebPagePreview options)
       else map_of p5 k)" for k
    unfolding p6_def map_of_assign by (simp add: m0 m1 m2 m3 m4 m5 split: option.split)
  show ?thesis
    unfolding built by (rule ext) (simp only: m6 m5 m4 m3 m2 m1 m0)
qed

lemma key_present_iff: "(k \<in> set (map fst ps)) = (map_of ps k \<noteq> None)"
  by (simp add: map_of_eq_None_iff)

lemma build_payload_empty:
  "build_payload this txt empty_options =
     [(''chat_id'', chat_id_json (chatId this)), (''text'', JString txt)]"
  by (simp add: build_payload_def empty_options_def)

lemma replace_trailing_slash_eq:
  "replace_trailing_slash u = strip_one_trailing_slash u"
  by (induction u rule: replace_trailing_slash.induct)
    (simp_all add: strip_one_trailing_slash_def)

lemma default_api_base_url_kept:
  "replace_trailing_slash default_api_base_url = lit ''https://api.telegram.org''"
  by (simp add: default_api_base_url_def lit_def slash_def)

lemma new_Telepush_Inr:
  assumes "snd (new_Telepush config) = Inr client"
  shows "\<exists>cfg tok. config = Some cfg \<and> cfg_botToken cfg = Some tok \<and> tok \<noteq> []
     \<and> botToken client = tok
     \<and> apiBaseUrl client = replace_trailing_slash
          (case cfg_apiBaseUrl cfg of None \<Rightarrow> default_api_base_url | Some u \<Rightarrow> u)
     \<and> defaultTimeoutMs client = cfg_defaultTimeoutMs cfg"
  using assms
  by (cases config)
    (auto simp: new_Telepush_def config_botToken_def config_chatId_def truthy_string_def
      split: option.splits chat_id_field.splits if_splits)

subsection \<open>Interpreting the response\<close>

text \<open>
  C1. Whenever \<^verbatim>\<open>push\<close> has issued its request and the transport answers it with a
  response whose HTTP status is 2xx (\<^verbatim>\<open>response.ok\<close> being, as the Fetch API defines it,
  true exactly for the statuses 200 to 299) and whose decoded body has \<^verbatim>\<open>ok = true\<close> and a
  \<^verbatim>\<open>result\<close>, the call succeeds and returns that result: its \<^verbatim>\<open>message_id\<close>, \<^verbatim>\<open>date\<close> and
  \<^verbatim>\<open>text\<close> are those of the body. The instance that follows is the round trip of the body
  \<^verbatim>\<open>{ok: true, result: {message_id: 1, date: 1700000000, text: "hello"}}\<close> with HTTP 200.
\<close>

theorem push_success:
  assumes sent: "Fetch request \<in> set (fst (push this env txt options_arg))"
    and responded: "env_fetch env request = FetchResolves response"
    and fetch_ok:
      "resp_ok response = (200 \<le> resp_status response \<and> resp_status response \<le> 299)"
    and http_2xx: "200 \<le> resp_status response \<and> resp_status response \<le> 299"
    and decoded: "resp_json response = JsonResolves data"
    and ok: "tg_ok data"
    and present: "tg_result data = Some r"
  shows "snd (push this env txt options_arg) = Inr r"
proof -
  from sent have nonblank: "trim txt \<noteq> []"
    and req: "request =
      build_request this (build_payload this txt (options_or_default options_arg))"
    by (simp_all add: fetch_event_iff)
  have "interpret_response response = Inr r"
    using fetch_ok http_2xx decoded ok present by (simp add: interpret_response_def)
  then have "try_block (env_fetch env request) = Inr r"
    using responded by (simp add: try_block_def)
  then show ?thesis
    using nonblank req by (simp add: push_nonblank)
qed

theorem push_success_witness:
  "snd (push baseClient (withFetch (FetchResolves (okResponse hello_data 200)))
         (lit ''hello'') None)
   = Inr \<lparr>message_id = 1, date = 1700000000, message_text = Some (lit ''hello'')\<rparr>"
proof -
  let ?env = "withFetch (FetchResolves (okResponse hello_data 200))"
  let ?request =
    "build_request baseClient (build_payload baseClient (lit ''hello'') empty_options)"
  have sent: "Fetch ?request \<in> set (fst (push baseClient ?env (lit ''hello'') None))"
    by (simp add: fetch_event_iff options_or_default_def trim_def lit_def
        is_js_whitespace_def)
  have responded: "env_fetch ?env ?request = FetchResolves (okResponse hello_data 200)"
    by (simp add: withFetch_def)
  have fetch_ok: "resp_ok (okResponse hello_data 200) =
      (200 \<le> resp_status (okResponse hello_data 200)
       \<and> resp_status (okResponse hello_data 200) \<le> 299)"
    by (simp add: okResponse_def)
  have http_2xx: "200 \<le> resp_status (okResponse hello_data 200)
      \<and> resp_status (okResponse hello_data 200) \<le> 299"
    by (simp add: okResponse_def)
  have decoded: "resp_json (okResponse hello_data 200) = JsonResolves hello_data"
    by (simp add: okResponse_def)
  have ok: "tg_ok hello_data"
    by (simp add: hello_data_def)
  have present: "tg_result hello_data =
      Some \<lparr>message_id = 1, date = 1700000000, message_text = Some (lit ''hello'')\<rparr>"
    by (simp add: hello_data_def)
  show ?thesis
    by (rule push_success [OF sent responded fetch_ok http_2xx decoded ok present])
qed

text \<open>
  C3 (as the code has it). Once the transport has answered the request and the body is
  decoded, the response is read in this order. A status outside 200..299 fails with the
  body's \<^verbatim>\<open>description\<close>, or else \<^verbatim>\<open>HTTP\<close> followed by the status, as message. Otherwise
  \<^verbatim>\<open>ok = false\<close> fails with the \<^verbatim>\<open>description\<close>, or else \<^verbatim>\<open>Telegram API error\<close>. Otherwise
  a missing \<^verbatim>\<open>result\<close> fails with \<^verbatim>\<open>Telegram API returned no result\<close>. All three errors carry
  the HTTP status and the body's \<^verbatim>\<open>error_code\<close>.
\<close>

theorem push_response_errors:
  assumes sent: "Fetch request \<in> set (fst (push this env txt options_arg))"
    and responded: "env_fetch env request = FetchResolves response"
    and fetch_ok:
      "resp_ok response = (200 \<le> resp_status response \<and> resp_status response \<le> 299)"
    and decoded: "resp_json response = JsonResolves data"
  shows
    "(\<not> (200 \<le> resp_status response \<and> resp_status response \<le> 299) \<longrightarrow>
        snd (push this env txt options_arg) =
          Inl (TelepushError
                (case tg_description data of
                   Some d \<Rightarrow> d
                 | None \<Rightarrow> lit ''HTTP '' @ number_to_string (resp_status response))
                (Some (resp_status response)) (tg_error_code data)))
     \<and> (200 \<le> resp_status response \<and> resp_status response \<le> 299 \<and> \<not> tg_ok data \<longrightarrow>
        snd (push this env txt options_arg) =
          Inl (TelepushError
                (case tg_description data of
                   Some d \<Rightarrow> d
                 | None \<Rightarrow> lit ''Telegram API error'')
                (Some (resp_status response)) (tg_error_code data)))
     \<and> (200 \<le> resp_status response \<and> resp_status response \<le> 299 \<and> tg_ok data
          \<and> tg_result data = None \<longrightarrow>
        snd (push this env txt options_arg) =
          Inl (TelepushError (lit ''Telegram API returned no result'')
                (Some (resp_status response)) (tg_error_code data)))"
proof -
  have settled: "snd (push this env txt options_arg) =
     (case interpret_response response of
        Inl err \<Rightarrow> Inl (catch_block err)
      | Inr r \<Rightarrow> Inr r)"
    using push_settles [OF sent] responded by (simp add: try_block_def)
  show ?thesis
    unfolding settled using fetch_ok decoded
    by (cases "tg_description data") (simp_all add: interpret_response_def)
qed

theorem push_response_errors_witness:
  "snd (push baseClient (withFetch (FetchResolves (errorResponse bad_request_data 400)))
         (lit ''hello'') None)
     = Inl (TelepushError (lit ''bad request'') (Some 400) (Some 400))
   \<and> snd (push baseClient (withFetch (FetchResolves (errorResponse not_ok_data 404)))
         (lit ''hello'') None)
     = Inl (TelepushError (lit ''HTTP 404'') (Some 404) None)
   \<and> snd (push baseClient (withFetch (FetchResolves (okResponse not_ok_data 200)))
         (lit ''hello'') None)
     = Inl (TelepushError (lit ''Telegram API error'') (Some 200) None)
   \<and> snd (push baseClient (withFetch (FetchResolves (okResponse no_result_data 200)))
         (lit ''hello'') None)
     = Inl (TelepushError (lit ''Telegram API returned no result'') (Some 200) None)"
proof -
  have digits: "number_to_string 404 = lit ''404''"
    by code_simp
  have a: "snd (push baseClient (withFetch (FetchResolves (errorResponse bad_request_data 400)))
         (lit ''hello'') None)
     = Inl (TelepushError (lit ''bad request'') (Some 400) (Some 400))"
    using push_response_errors [where env = "withFetch (FetchResolves (errorResponse bad_request_data 400))"
        and response = "errorResponse bad_request_data 400" and data = bad_request_data,
        OF push_sends [OF trim_hello]]
    by (simp add: withFetch_def errorResponse_def bad_request_data_def)
  have b: "snd (push baseClient (withFetch (FetchResolves (errorResponse not_ok_data 404)))
         (lit ''hello'') None)
     = Inl (TelepushError (lit ''HTTP 404'') (Some 404) None)"
    using push_response_errors [where env = "withFetch (FetchResolves (errorResponse not_ok_data 404))"
        and response = "errorResponse not_ok_data 404" and data = not_ok_data,
        OF push_sends [OF trim_hello]]
    by (simp add: withFetch_def errorResponse_def not_ok_data_def digits) (simp add: lit_def)
  have c: "snd (push baseClient (withFetch (FetchResolves (okResponse not_ok_data 200)))
         (lit ''hello'') None)
     = Inl (TelepushError (lit ''Telegram API error'') (Some 200) None)"
    using push_response_errors [where env = "withFetch (FetchResolves (okResponse not_ok_data 200))"
        and response = "okResponse not_ok_data 200" and data = not_ok_data,
        OF push_sends [OF trim_hello]]
    by (simp add: withFetch_def okResponse_def not_ok_data_def)
  have d: "snd (push baseClient (withFetch (FetchResolves (okResponse no_result_data 200)))
         (lit ''hello'') None)
     = Inl (TelepushError (lit ''Telegram API returned no result'') (Some 200) None)"
    using push_response_errors [where env = "withFetch (FetchResolves (okResponse no_result_data 200))"
        and response = "okResponse no_result_data 200" and data = no_result_data,
        OF push_sends [OF trim_hello]]
    by (simp add: withFetch_def okResponse_def no_result_data_def)
  from a b c d show ?thesis by blast
qed

text \<open>
  C3 as the specification words it names the fallback message \<^verbatim>\<open>remote API error\<close>. For
  HTTP 200 with the body \<^verbatim>\<open>{ok: false}\<close> the code does not fail with that message.
\<close>

theorem remote_api_error_message_counterexample:
  "snd (push baseClient (withFetch (FetchResolves (okResponse not_ok_data 200)))
         (lit ''hello'') None)
     \<noteq> Inl (TelepushError (lit ''remote API error'') (Some 200) None)"
  by (simp add: push_nonblank trim_hello withFetch_def try_block_def interpret_response_def
      okResponse_def not_ok_data_def)
    (simp add: lit_def)

subsection \<open>Errors raised in the request phase\<close>

text \<open>
  C7. The platform reports an aborted request by rejecting \<^verbatim>\<open>fetch\<close>, or the pending
  \<^verbatim>\<open>response.json()\<close>, with an \<^verbatim>\<open>Error\<close> named \<^verbatim>\<open>AbortError\<close>; the only abort \<^verbatim>\<open>push\<close> ever
  triggers is that of its own timer. Whenever the request is aborted in this way, \<^verbatim>\<open>push\<close>
  fails with the fixed message \<^verbatim>\<open>Request timed out\<close> and with neither \<^verbatim>\<open>status\<close> nor
  \<^verbatim>\<open>code\<close>.
\<close>

theorem abort_is_timeout:
  assumes sent: "Fetch request \<in> set (fst (push this env txt options_arg))"
    and aborted:
      "env_fetch env request = FetchRejects (ThrownError (lit ''AbortError'') m)
       \<or> (\<exists>response. env_fetch env request = FetchResolves response
            \<and> resp_json response = JsonRejects (ThrownError (lit ''AbortError'') m))"
  shows "snd (push this env txt options_arg)
           = Inl (TelepushError (lit ''Request timed out'') None None)"
proof -
  from aborted have "try_block (env_fetch env request)
      = Inl (ThrownError (lit ''AbortError'') m)"
    by (auto simp: try_block_def interpret_response_def)
  then show ?thesis
    using push_settles [OF sent] by simp
qed

theorem abort_is_timeout_witness:
  "snd (push baseClient (withFetch (FetchRejects abort_error)) (lit ''hello'')
         (Some (timeout_options 10)))
     = Inl (TelepushError (lit ''Request timed out'') None None)"
proof -
  have aborted: "env_fetch (withFetch (FetchRejects abort_error))
       (build_request baseClient (build_payload baseClient (lit ''hello'')
          (options_or_default (Some (timeout_options 10)))))
      = FetchRejects (ThrownError (lit ''AbortError'') (lit ''This operation was aborted''))
     \<or> (\<exists>response. env_fetch (withFetch (FetchRejects abort_error))
       (build_request baseClient (build_payload baseClient (lit ''hello'')
          (options_or_default (Some (timeout_options 10)))))
          = FetchResolves response
        \<and> resp_json response
          = JsonRejects (ThrownError (lit ''AbortError'') (lit ''This operation was aborted'')))"
    by (simp add: withFetch_def abort_error_def)
  show ?thesis
    by (rule abort_is_timeout [OF push_sends [OF trim_hello] aborted])
qed

text \<open>
  C10. Whatever is thrown inside the \<^verbatim>\<open>try\<close> block reaches the caller as one
  \<^verbatim>\<open>TelepushError\<close>: a \<^verbatim>\<open>TelepushError\<close> is passed on as it is; an \<^verbatim>\<open>Error\<close> named
  \<^verbatim>\<open>AbortError\<close> becomes the timeout error; any other \<^verbatim>\<open>Error\<close> becomes an error with that
  \<^verbatim>\<open>Error\<close>'s message and neither \<^verbatim>\<open>status\<close> nor \<^verbatim>\<open>code\<close>; a value that is no \<^verbatim>\<open>Error\<close>
  becomes an error with the message \<^verbatim>\<open>Unknown error\<close>.
\<close>

theorem catch_normalizes:
  assumes sent: "Fetch request \<in> set (fst (push this env txt options_arg))"
    and failed: "try_block (env_fetch env request) = Inl err"
  shows "(\<forall>e. err = ThrownTelepushError e \<longrightarrow> snd (push this env txt options_arg) = Inl e)
     \<and> (\<forall>m. err = ThrownError (lit ''AbortError'') m \<longrightarrow>
          snd (push this env txt options_arg)
            = Inl (TelepushError (lit ''Request timed out'') None None))
     \<and> (\<forall>n m. err = ThrownError n m \<and> n \<noteq> lit ''AbortError'' \<longrightarrow>
          snd (push this env txt options_arg) = Inl (TelepushError m None None))
     \<and> (err = ThrownNonError \<longrightarrow>
          snd (push this env txt options_arg)
            = Inl (TelepushError (lit ''Unknown error'') None None))"
  using push_settles [OF sent] failed by simp

theorem catch_normalizes_witness:
  "snd (push baseClient (withFetch (FetchRejects fetch_failed)) (lit ''hello'') None)
     = Inl (TelepushError (lit ''fetch failed'') None None)
   \<and> snd (push baseClient (withFetch (FetchRejects ThrownNonError)) (lit ''hello'') None)
     = Inl (TelepushError (lit ''Unknown error'') None None)
   \<and> snd (push baseClient (withFetch (FetchRejects abort_error)) (lit ''hello'') None)
     = Inl (TelepushError (lit ''Request timed out'') None None)
   \<and> snd (push baseClient (withFetch (FetchResolves (errorResponse bad_request_data 400)))
        (lit ''hello'') None)
     = Inl (TelepushError (lit ''bad request'') (Some 400) (Some 400))"
proof -
  have differs: "lit ''TypeError'' \<noteq> lit ''AbortError''"
    by (simp add: lit_def)
  have a: "snd (push baseClient (withFetch (FetchRejects fetch_failed)) (lit ''hello'') None)
     = Inl (TelepushError (lit ''fetch failed'') None None)"
    using catch_normalizes [where env = "withFetch (FetchRejects fetch_failed)"
        and err = fetch_failed, OF push_sends [OF trim_hello]] differs
    by (simp add: withFetch_def try_block_def fetch_failed_def)
  have b: "snd (push baseClient (withFetch (FetchRejects ThrownNonError)) (lit ''hello'') None)
     = Inl (TelepushError (lit ''Unknown error'') None None)"
    using catch_normalizes [where env = "withFetch (FetchRejects ThrownNonError)"
        and err = ThrownNonError, OF push_sends [OF trim_hello]]
    by (simp add: withFetch_def try_block_def)
  have c: "snd (push baseClient (withFetch (FetchRejects abort_error)) (lit ''hello'') None)
     = Inl (TelepushError (lit ''Request timed out'') None None)"
    using catch_normalizes [where env = "withFetch (FetchRejects abort_error)"
        and err = abort_error, OF push_sends [OF trim_hello]]
    by (simp add: withFetch_def try_block_def abort_error_def)
  have d: "snd (push baseClient (withFetch (FetchResolves (errorResponse bad_request_data 400)))
        (lit ''hello'') None)
     = Inl (TelepushError (lit ''bad request'') (Some 400) (Some 400))"
    using catch_normalizes [where env = "withFetch (FetchResolves (errorResponse bad_request_data 400))"
        and err = "ThrownTelepushError (TelepushError (lit ''bad request'') (Some 400) (Some 400))",
        OF push_sends [OF trim_hello]]
    by (simp add: withFetch_def try_block_def interpret_response_def errorResponse_def
        bad_request_data_def)
  from a b c d show ?thesis by blast
qed

subsection \<open>The timeout\<close>

text \<open>
  C6. In a call that gets as far as its request (the text has passed validation), the
  effective timeout is \<^verbatim>\<open>options.timeoutMs\<close> when present, whatever its value, and otherwise
  the client's \<^verbatim>\<open>defaultTimeoutMs\<close>, which may be absent; and a timer of \<open>ms\<close> milliseconds
  is armed exactly when the effective timeout is \<open>ms\<close> and \<open>ms\<close> is strictly positive.
  The instance that follows has a default of 5000, once with no options (armed) and once
  with an explicit 0 (the 0 wins over the default, and nothing is armed).
\<close>

theorem effective_timeout_arms_timer:
  assumes sent: "Fetch request \<in> set (fst (push this env txt options_arg))"
  shows "effective_timeout this (options_or_default options_arg) =
           (case timeoutMs (options_or_default options_arg) of
              Some t \<Rightarrow> Some t
            | None \<Rightarrow> defaultTimeoutMs this)
         \<and> ((\<exists>h. SetTimeout h ms \<in> set (fst (push this env txt options_arg))) =
              (effective_timeout this (options_or_default options_arg) = Some ms \<and> 0 < ms))"
proof -
  from sent have "trim txt \<noteq> []"
    by (simp add: fetch_event_iff)
  then show ?thesis
    by (auto simp: armed_iff effective_timeout_def split: option.splits)
qed

theorem effective_timeout_arms_timer_witness:
  "effective_timeout (client_with_default 5000) (options_or_default None) = Some 5000
   \<and> (\<exists>h. SetTimeout h 5000
         \<in> set (fst (push (client_with_default 5000) (withFetch (FetchRejects fetch_failed))
                     (lit ''hello'') None)))
   \<and> effective_timeout (client_with_default 5000)
        (options_or_default (Some (timeout_options 0))) = Some 0
   \<and> \<not> (\<exists>h. SetTimeout h 0
         \<in> set (fst (push (client_with_default 5000) (withFetch (FetchRejects fetch_failed))
                     (lit ''hello'') (Some (timeout_options 0)))))"
proof -
  let ?client = "client_with_default 5000"
  let ?env = "withFetch (FetchRejects fetch_failed)"
  have eff_default: "effective_timeout ?client (options_or_default None) = Some 5000"
    by (simp add: effective_timeout_def options_or_default_def empty_options_def
        client_with_default_def)
  have eff_zero: "effective_timeout ?client (options_or_default (Some (timeout_options 0)))
      = Some 0"
    by (simp add: effective_timeout_def options_or_default_def timeout_options_def)
  have a: "\<exists>h. SetTimeout h 5000 \<in> set (fst (push ?client ?env (lit ''hello'') None))"
    using effective_timeout_arms_timer [where env = ?env and ms = 5000,
        OF push_sends [OF trim_hello, of ?client None]] eff_default
    by simp
  have b: "\<not> (\<exists>h. SetTimeout h 0
      \<in> set (fst (push ?client ?env (lit ''hello'') (Some (timeout_options 0)))))"
    using effective_timeout_arms_timer [where env = ?env and ms = 0,
        OF push_sends [OF trim_hello, of ?client "Some (timeout_options 0)"]]
    by simp
  from eff_default a eff_zero b show ?thesis by blast
qed

text \<open>
  C9. A call that arms a timer does three things in this order, whatever the transport
  answers: it arms the timer, issues the request, and clears that same timer. So the
  timer is cleared last, on success, remote rejection, transport failure and timeout
  alike; a call that fails validation arms none.
\<close>

theorem timer_disarmed_on_exit:
  assumes "SetTimeout h ms \<in> set (fst (push this env txt options_arg))"
  shows "\<exists>request. fst (push this env txt options_arg)
           = [SetTimeout h ms, Fetch request, ClearTimeout h]"
  using assms push_events_cases [of this env "txt" options_arg] by auto

theorem timer_disarmed_on_exit_witness:
  "(\<exists>request. fst (push baseClient (withFetch (FetchResolves (okResponse hello_data 200)))
        (lit ''hello'') (Some (timeout_options 10)))
      = [SetTimeout (Timeout 1) 10, Fetch request, ClearTimeout (Timeout 1)])
   \<and> (\<exists>request. fst (push baseClient
        (withFetch (FetchResolves (errorResponse bad_request_data 400)))
        (lit ''hello'') (Some (timeout_options 10)))
      = [SetTimeout (Timeout 1) 10, Fetch request, ClearTimeout (Timeout 1)])
   \<and> (\<exists>request. fst (push baseClient (withFetch (FetchRejects fetch_failed))
        (lit ''hello'') (Some (timeout_options 10)))
      = [SetTimeout (Timeout 1) 10, Fetch request, ClearTimeout (Timeout 1)])
   \<and> (\<exists>request. fst (push baseClient (withFetch (FetchRejects abort_error))
        (lit ''hello'') (Some (timeout_options 10)))
      = [SetTimeout (Timeout 1) 10, Fetch request, ClearTimeout (Timeout 1)])"
proof -
  have armed: "SetTimeout (Timeout 1) 10
      \<in> set (fst (push baseClient (withFetch outcome) (lit ''hello'')
                 (Some (timeout_options 10))))" for outcome
    by (simp add: armed_iff trim_hello effective_timeout_def options_or_default_def
        timeout_options_def withFetch_def)
  show ?thesis
    using timer_disarmed_on_exit [OF armed] by blast
qed

subsection \<open>The request body\<close>

text \<open>
  C2. In the body of the request that \<^verbatim>\<open>push\<close> issues, each optional wire key is present
  exactly when its option is set; a boolean option carries its value into the body, so
  an explicit \<^verbatim>\<open>false\<close> is sent as \<^verbatim>\<open>false\<close>; and without options the keys are exactly
  \<^verbatim>\<open>chat_id\<close> and \<^verbatim>\<open>text\<close>.
\<close>

theorem payload_optional_keys:
  assumes sent: "Fetch request \<in> set (fst (push this env txt options_arg))"
  shows
    "((''parse_mode'' \<in> set (map fst (req_body request)))
        = (parseMode (options_or_default options_arg) \<noteq> None))
     \<and> ((''disable_notification'' \<in> set (map fst (req_body request)))
        = (disableNotification (options_or_default options_arg) \<noteq> None))
     \<and> ((''protect_content'' \<in> set (map fst (req_body request)))
        = (protectContent (options_or_default options_arg) \<noteq> None))
     \<and> ((''reply_to_message_id'' \<in> set (map fst (req_body request)))
        = (replyToMessageId (options_or_default options_arg) \<noteq> None))
     \<and> ((''message_thread_id'' \<in> set (map fst (req_body request)))
        = (messageThreadId (options_or_default options_arg) \<noteq> None))
     \<and> ((''disable_web_page_preview'' \<in> set (map fst (req_body request)))
        = (disableWebPagePreview (options_or_default options_arg) \<noteq> None))
     \<and> map_of (req_body request) ''disable_notification''
        = map_option JBool (disableNotification (options_or_default options_arg))
     \<and> map_of (req_body request) ''protect_content''
        = map_option JBool (protectContent (options_or_default options_arg))
     \<and> map_of (req_body request) ''disable_web_page_preview''
        = map_option JBool (disableWebPagePreview (options_or_default options_arg))
     \<and> (options_arg = None \<longrightarrow> map fst (req_body request) = [''chat_id'', ''text''])"
proof -
  from sent have req: "req_body request
      = build_payload this txt (options_or_default options_arg)"
    by (simp add: fetch_event_iff build_request_def)
  have none: "options_arg = None \<longrightarrow> map fst (req_body request) = [''chat_id'', ''text'']"
    by (simp add: req options_or_default_def build_payload_empty)
  show ?thesis
    unfolding key_present_iff
    using none by (simp add: req build_payload_lookup)
qed

theorem payload_optional_keys_witness:
  "map_of (req_body (build_request baseClient
       (build_payload baseClient (lit ''hello'') (options_or_default (Some silent_options)))))
     ''disable_notification'' = Some (JBool False)
   \<and> ''parse_mode'' \<notin> set (map fst (req_body (build_request baseClient
       (build_payload baseClient (lit ''hello'') (options_or_default (Some silent_options))))))
   \<and> map fst (req_body (build_request baseClient
       (build_payload baseClient (lit ''hello'') (options_or_default None))))
     = [''chat_id'', ''text'']"
proof -
  let ?env = "withFetch (FetchRejects fetch_failed)"
  have a: "map_of (req_body (build_request baseClient
       (build_payload baseClient (lit ''hello'') (options_or_default (Some silent_options)))))
     ''disable_notification'' = Some (JBool False)
   \<and> ''parse_mode'' \<notin> set (map fst (req_body (build_request baseClient
       (build_payload baseClient (lit ''hello'') (options_or_default (Some silent_options))))))"
    using payload_optional_keys
      [OF push_sends [OF trim_hello, of baseClient "Some silent_options" ?env]]
    by (simp add: options_or_default_def silent_options_def empty_options_def)
  have b: "map fst (req_body (build_request baseClient
       (build_payload baseClient (lit ''hello'') (options_or_default None))))
     = [''chat_id'', ''text'']"
    using payload_optional_keys [OF push_sends [OF trim_hello, of baseClient None ?env]]
    by simp
  from a b show ?thesis by blast
qed

text \<open>
  C5. A text is empty after trimming exactly when it is empty or all of its code units
  are whitespace. Such a text makes \<^verbatim>\<open>push\<close> fail with a validation error (neither
  \<^verbatim>\<open>status\<close> nor \<^verbatim>\<open>code\<close>) without any event, hence without a request. Any other text is
  sent, and the \<^verbatim>\<open>text\<close> of the request body is the text as given, untrimmed.
\<close>

theorem blank_text_rejected:
  "(trim txt = []) = (txt = [] \<or> (\<forall>c\<in>set txt. is_js_whitespace c))
   \<and> (trim txt = [] \<longrightarrow>
        push this env txt options_arg =
          ([], Inl (TelepushError (lit ''text must be a non-empty string'') None None)))
   \<and> (trim txt \<noteq> [] \<longrightarrow>
        (\<exists>request. Fetch request \<in> set (fst (push this env txt options_arg)))
        \<and> (\<forall>request. Fetch request \<in> set (fst (push this env txt options_arg)) \<longrightarrow>
              map_of (req_body request) ''text'' = Some (JString txt)))"
proof -
  have a: "(trim txt = []) = (txt = [] \<or> (\<forall>c\<in>set txt. is_js_whitespace c))"
    by (auto simp: trim_Nil_iff)
  have b: "trim txt = [] \<longrightarrow>
        push this env txt options_arg =
          ([], Inl (TelepushError (lit ''text must be a non-empty string'') None None))"
    by (simp add: push_blank)
  have c: "trim txt \<noteq> [] \<longrightarrow>
        (\<exists>request. Fetch request \<in> set (fst (push this env txt options_arg)))"
    by (simp add: fetch_event_iff)
  have d: "\<forall>request. Fetch request \<in> set (fst (push this env txt options_arg)) \<longrightarrow>
              map_of (req_body request) ''text'' = Some (JString txt)"
    by (simp add: fetch_event_iff build_request_def build_payload_lookup)
  from a b c d show ?thesis by blast
qed

theorem blank_text_rejected_witness:
  "push baseClient (withFetch (FetchResolves (okResponse hello_data 200))) (lit ''  '') None
     = ([], Inl (TelepushError (lit ''text must be a non-empty string'') None None))
   \<and> Fetch (build_request baseClient
         (build_payload baseClient (lit '' hi '') (options_or_default None)))
       \<in> set (fst (push baseClient
           (withFetch (FetchResolves (okResponse hello_data 200))) (lit '' hi '') None))
   \<and> map_of (req_body (build_request baseClient
         (build_payload baseClient (lit '' hi '') (options_or_default None)))) ''text''
       = Some (JString (lit '' hi ''))"
proof -
  let ?env = "withFetch (FetchResolves (okResponse hello_data 200))"
  let ?request = "build_request baseClient
         (build_payload baseClient (lit '' hi '') (options_or_default None))"
  have blank: "trim (lit ''  '') = []"
    by (simp add: trim_def lit_def is_js_whitespace_def)
  have nonblank: "trim (lit '' hi '') \<noteq> []"
    by (simp add: trim_def lit_def is_js_whitespace_def)
  have a: "push baseClient ?env (lit ''  '') None
     = ([], Inl (TelepushError (lit ''text must be a non-empty string'') None None))"
    using blank_text_rejected [of "lit ''  ''" baseClient ?env None] blank by blast
  have b: "Fetch ?request \<in> set (fst (push baseClient ?env (lit '' hi '') None))"
    by (rule push_sends [OF nonblank])
  have c: "map_of (req_body ?request) ''text'' = Some (JString (lit '' hi ''))"
    using blank_text_rejected [of "lit '' hi ''" baseClient ?env None] nonblank b by blast
  from a b c show ?thesis by blast
qed

subsection \<open>The constructor\<close>

text \<open>
  C4. The constructor fails exactly when \<^verbatim>\<open>botToken\<close> is absent or empty, or \<^verbatim>\<open>chatId\<close> is
  \<^verbatim>\<open>undefined\<close>, \<^verbatim>\<open>null\<close> or the empty string. The error it fails with is a validation
  error: no \<^verbatim>\<open>status\<close>, no \<^verbatim>\<open>code\<close>. The number 0 is accepted as \<^verbatim>\<open>chatId\<close>. The
  constructor causes no event, so no network activity.
\<close>

theorem constructor_validation:
  "((\<exists>e. snd (new_Telepush config) = Inl e) =
      (config_botToken config = None \<or> config_botToken config = Some []
       \<or> config_chatId config = ChatUndefined \<or> config_chatId config = ChatNull
       \<or> config_chatId config = ChatString []))
   \<and> (\<forall>e. snd (new_Telepush config) = Inl e \<longrightarrow>
         status e = None \<and> code e = None
         \<and> (message e = lit ''botToken is required'' \<or> message e = lit ''chatId is required''))
   \<and> (\<forall>tok. config_botToken config = Some tok \<and> tok \<noteq> []
         \<and> config_chatId config = ChatNumber 0 \<longrightarrow>
         (\<exists>client. snd (new_Telepush config) = Inr client \<and> chatId client = ChatIdNumber 0))
   \<and> fst (new_Telepush config) = []"
proof -
  have a: "(\<exists>e. snd (new_Telepush config) = Inl e) =
      (config_botToken config = None \<or> config_botToken config = Some []
       \<or> config_chatId config = ChatUndefined \<or> config_chatId config = ChatNull
       \<or> config_chatId config = ChatString [])"
    by (auto simp: new_Telepush_def truthy_string_def lit_def
        split: option.splits chat_id_field.splits)
  have b: "\<forall>e. snd (new_Telepush config) = Inl e \<longrightarrow>
         status e = None \<and> code e = None
         \<and> (message e = lit ''botToken is required'' \<or> message e = lit ''chatId is required'')"
    by (auto simp: new_Telepush_def split: option.splits chat_id_field.splits if_splits)
  have c: "\<forall>tok. config_botToken config = Some tok \<and> tok \<noteq> []
         \<and> config_chatId config = ChatNumber 0 \<longrightarrow>
         (\<exists>client. snd (new_Telepush config) = Inr client \<and> chatId client = ChatIdNumber 0)"
    by (simp add: new_Telepush_def truthy_string_def)
  have d: "fst (new_Telepush config) = []"
    by (simp add: new_Telepush_def split: option.splits chat_id_field.splits)
  from a b c d show ?thesis by blast
qed

theorem constructor_validation_witness:
  "(\<exists>client. snd (new_Telepush (Some (config_with_chat (ChatNumber 0)))) = Inr client
       \<and> chatId client = ChatIdNumber 0)
   \<and> (\<exists>e. snd (new_Telepush (Some (config_with_chat (ChatString [])))) = Inl e)
   \<and> (\<exists>e. snd (new_Telepush (Some (config_with_chat ChatNull))) = Inl e)
   \<and> (\<exists>e. snd (new_Telepush None) = Inl e)
   \<and> \<not> (\<exists>e. snd (new_Telepush (Some baseConfig)) = Inl e)"
proof -
  have tok: "config_botToken (Some (config_with_chat c)) = Some (lit ''token'')
      \<and> lit ''token'' \<noteq> [] \<and> config_chatId (Some (config_with_chat c)) = c" for c
    by (simp add: config_botToken_def config_chatId_def config_with_chat_def baseConfig_def
        lit_def)
  have a: "\<exists>client. snd (new_Telepush (Some (config_with_chat (ChatNumber 0)))) = Inr client
       \<and> chatId client = ChatIdNumber 0"
    using constructor_validation [of "Some (config_with_chat (ChatNumber 0))"]
      tok [of "ChatNumber 0"] by blast
  have b: "\<exists>e. snd (new_Telepush (Some (config_with_chat (ChatString [])))) = Inl e"
    using constructor_validation [of "Some (config_with_chat (ChatString []))"]
      tok [of "ChatString []"] by simp
  have c: "\<exists>e. snd (new_Telepush (Some (config_with_chat ChatNull))) = Inl e"
    using constructor_validation [of "Some (config_with_chat ChatNull)"]
      tok [of ChatNull] by simp
  have d: "\<exists>e. snd (new_Telepush None) = Inl e"
    using constructor_validation [of None]
    by (simp add: config_botToken_def)
  have e: "\<not> (\<exists>e. snd (new_Telepush (Some baseConfig)) = Inl e)"
    using constructor_validation [of "Some baseConfig"]
    by (simp add: config_botToken_def config_chatId_def baseConfig_def lit_def)
  from a b c d e show ?thesis by blast
qed

text \<open>
  C8. The stored base URL is \<^verbatim>\<open>https://api.telegram.org\<close> when \<^verbatim>\<open>apiBaseUrl\<close> is absent, and
  otherwise \<^verbatim>\<open>apiBaseUrl\<close> with one trailing slash removed if there is one: a value ending
  in two slashes keeps one, a value without trailing slash is stored as it is.
\<close>

theorem base_url_normalized:
  assumes built: "snd (new_Telepush config) = Inr client"
  shows "\<exists>cfg. config = Some cfg
     \<and> apiBaseUrl client =
         (case cfg_apiBaseUrl cfg of
            None \<Rightarrow> lit ''https://api.telegram.org''
          | Some u \<Rightarrow> strip_one_trailing_slash u)
     \<and> (\<forall>v. cfg_apiBaseUrl cfg = Some (v @ [slash, slash]) \<longrightarrow>
           apiBaseUrl client = v @ [slash])
     \<and> (\<forall>u. cfg_apiBaseUrl cfg = Some u \<and> (u = [] \<or> last u \<noteq> slash) \<longrightarrow>
           apiBaseUrl client = u)"
proof -
  from new_Telepush_Inr [OF built] obtain cfg where cfg: "config = Some cfg"
    and url: "apiBaseUrl client = replace_trailing_slash
          (case cfg_apiBaseUrl cfg of None \<Rightarrow> default_api_base_url | Some u \<Rightarrow> u)"
    by blast
  have stored: "apiBaseUrl client =
         (case cfg_apiBaseUrl cfg of
            None \<Rightarrow> lit ''https://api.telegram.org''
          | Some u \<Rightarrow> strip_one_trailing_slash u)"
    using url
    by (cases "cfg_apiBaseUrl cfg")
      (simp_all add: default_api_base_url_kept, simp add: replace_trailing_slash_eq)
  have two: "\<forall>v. cfg_apiBaseUrl cfg = Some (v @ [slash, slash]) \<longrightarrow>
           apiBaseUrl client = v @ [slash]"
    using stored by (simp add: strip_one_trailing_slash_def butlast_append)
  have unchanged: "\<forall>u. cfg_apiBaseUrl cfg = Some u \<and> (u = [] \<or> last u \<noteq> slash) \<longrightarrow>
           apiBaseUrl client = u"
    using stored by (auto simp: strip_one_trailing_slash_def)
  from cfg stored two unchanged show ?thesis by blast
qed

theorem base_url_normalized_witness:
  "(\<exists>client. snd (new_Telepush (Some (config_with_url (lit ''https://example.org//''))))
        = Inr client
      \<and> apiBaseUrl client = lit ''https://example.org/'')
   \<and> (\<exists>client. snd (new_Telepush (Some (config_with_url (lit ''https://example.org/''))))
        = Inr client
      \<and> apiBaseUrl client = lit ''https://example.org'')
   \<and> (\<exists>client. snd (new_Telepush (Some (config_with_url (lit ''https://example.org''))))
        = Inr client
      \<and> apiBaseUrl client = lit ''https://example.org'')
   \<and> (\<exists>client. snd (new_Telepush (Some baseConfig)) = Inr client
      \<and> apiBaseUrl client = lit ''https://api.telegram.org'')"
proof -
  have built: "\<exists>client. snd (new_Telepush (Some (config_with_url u))) = Inr client" for u
    by (simp add: new_Telepush_def config_with_url_def baseConfig_def config_botToken_def
        config_chatId_def truthy_string_def lit_def)
  have built_base: "\<exists>client. snd (new_Telepush (Some baseConfig)) = Inr client"
    by (simp add: new_Telepush_def baseConfig_def config_botToken_def
        config_chatId_def truthy_string_def lit_def)
  have url: "cfg_apiBaseUrl (config_with_url u) = Some u" for u
    by (simp add: config_with_url_def)
  have a: "\<exists>client. snd (new_Telepush (Some (config_with_url (lit ''https://example.org//''))))
        = Inr client
      \<and> apiBaseUrl client = lit ''https://example.org/''"
  proof -
    from built obtain client
      where c: "snd (new_Telepush (Some (config_with_url (lit ''https://example.org//''))))
        = Inr client"
      by blast
    have "apiBaseUrl client = lit ''https://example.org/''"
      using base_url_normalized [OF c] url [of "lit ''https://example.org//''"]
      by (simp add: strip_one_trailing_slash_def lit_def slash_def)
    with c show ?thesis by blast
  qed
  have b: "\<exists>client. snd (new_Telepush (Some (config_with_url (lit ''https://example.org/''))))
        = Inr client
      \<and> apiBaseUrl client = lit ''https://example.org''"
  proof -
    from built obtain client
      where c: "snd (new_Telepush (Some (config_with_url (lit ''https://example.org/''))))
        = Inr client"
      by blast
    have "apiBaseUrl client = lit ''https://example.org''"
      using base_url_normalized [OF c] url [of "lit ''https://example.org/''"]
      by (simp add: strip_one_trailing_slash_def lit_def slash_def)
    with c show ?thesis by blast
  qed
  have c: "\<exists>client. snd (new_Telepush (Some (config_with_url (lit ''https://example.org''))))
        = Inr client
      \<and> apiBaseUrl client = lit ''https://example.org''"
  proof -
    from built obtain client
      where c: "snd (new_Telepush (Some (config_with_url (lit ''https://example.org''))))
        = Inr client"
      by blast
    have "apiBaseUrl client = lit ''https://example.org''"
      using base_url_normalized [OF c] url [of "lit ''https://example.org''"]
      by (simp add: strip_one_trailing_slash_def lit_def slash_def)
    with c show ?thesis by blast
  qed
  have d: "\<exists>client. snd (new_Telepush (Some baseConfig)) = Inr client
      \<and> apiBaseUrl client = lit ''https://api.telegram.org''"
  proof -
    from built_base obtain client
      where c: "snd (new_Telepush (Some baseConfig)) = Inr client"
      by blast
    have "apiBaseUrl client = lit ''https://api.telegram.org''"
      using base_url_normalized [OF c]
      by (simp add: baseConfig_def)
    with c show ?thesis by blast
  qed
  from a b c d show ?thesis by blast
qed

end
